theory Spec2Isabelle
  imports Complex_Main "HOL-Library.List_Lexorder" "HOL-Library.Char_ord"
begin

section \<open>Values, exceptions and data frames\<close>

text \<open>
  The pipeline of \<^verbatim>\<open>backend/utils/classifier.py\<close> and
  \<^verbatim>\<open>backend/services/customer_service.py\<close> works on pandas data frames. A cell
  of a frame is a Python string, an integer or a float. A finite float is represented by its
  exact rational value (every finite double is a rational, and the thresholds 50, 5000 and 10
  are exact), so rounding and overflow of floating-point arithmetic are outside the model.
  A missing cell of a CSV file is the float NaN, as pandas reads it. Cells that hold a boolean
  or \<^verbatim>\<open>None\<close> and column labels that are not strings are not represented.
\<close>

datatype pyfloat = Fin rat | NaN | PInf | NInf

datatype cell = StrV string | IntV int | FloatV pyfloat

text \<open>Exceptions are values; the string is what \<^verbatim>\<open>str(e)\<close> returns.\<close>

datatype exn =
    ValueError string
  | TypeError string
  | AttributeError string
  | HTTPException nat string
  | OtherError string

text \<open>A word in single quotes, as Python prints names and strings in its messages.\<close>

definition py_repr :: "string \<Rightarrow> string" where
  "py_repr s = [char_of (39 :: nat)] @ s @ [char_of (39 :: nat)]"

definition ebind :: "exn + 'a \<Rightarrow> ('a \<Rightarrow> exn + 'b) \<Rightarrow> exn + 'b" where
  "ebind m f = (case m of Inl e \<Rightarrow> Inl e | Inr x \<Rightarrow> f x)"

fun emap :: "('a \<Rightarrow> exn + 'b) \<Rightarrow> 'a list \<Rightarrow> exn + 'b list" where
  "emap f [] = Inr []"
| "emap f (x # xs) =
     (case f x of Inl e \<Rightarrow> Inl e
      | Inr y \<Rightarrow> (case emap f xs of Inl e \<Rightarrow> Inl e | Inr ys \<Rightarrow> Inr (y # ys)))"

text \<open>
  A frame has a list of column labels, which pandas allows to repeat, and a list of rows; every
  row has one cell per column. The row that \<^verbatim>\<open>df.apply(f, axis=1)\<close> and
  \<^verbatim>\<open>df.iterrows()\<close> hand to the code is the series of the labels paired with the cells.
\<close>

record frame =
  columns :: "string list"
  rows :: "cell list list"

type_synonym series = "(string \<times> cell) list"

definition row_series :: "frame \<Rightarrow> cell list \<Rightarrow> series" where
  "row_series df r = zip (columns df) r"

text \<open>
  \<^verbatim>\<open>row.get(key, default)\<close>: the default when the label is absent, the cell when the label
  occurs once, and the sub-series of all cells under that label when it occurs several times.
\<close>

datatype pyval = Scalar cell | Series "cell list"

definition lookup_all :: "series \<Rightarrow> string \<Rightarrow> cell list" where
  "lookup_all row key = map snd (filter (\<lambda>kv. fst kv = key) row)"

definition series_get :: "series \<Rightarrow> string \<Rightarrow> cell \<Rightarrow> pyval" where
  "series_get row key dflt =
     (case lookup_all row key of
        [] \<Rightarrow> Scalar dflt
      | [v] \<Rightarrow> Scalar v
      | vs \<Rightarrow> Series vs)"

section \<open>Classification (\<^verbatim>\<open>classify_customers\<close>)\<close>

datatype customer_category = BULK_BUYER | FREQUENT_CUSTOMER | BOTH | REGULAR

fun category_value :: "customer_category \<Rightarrow> string" where
  "category_value BULK_BUYER = ''bulk_buyer''"
| "category_value FREQUENT_CUSTOMER = ''frequent_customer''"
| "category_value BOTH = ''both''"
| "category_value REGULAR = ''regular''"

text \<open>
  \<^verbatim>\<open>x >= n\<close> for a cell and an integer literal. Comparing a string with an integer raises
  TypeError; every comparison with NaN is false.
\<close>

definition str_int_cmp_msg :: string where
  "str_int_cmp_msg =
     py_repr ''>='' @ '' not supported between instances of '' @ py_repr ''str'' @ '' and '' @
     py_repr ''int''"

fun cell_ge :: "cell \<Rightarrow> int \<Rightarrow> exn + bool" where
  "cell_ge (IntV i) n = Inr (n \<le> i)"
| "cell_ge (FloatV (Fin q)) n = Inr (of_int n \<le> q)"
| "cell_ge (FloatV NaN) n = Inr False"
| "cell_ge (FloatV PInf) n = Inr True"
| "cell_ge (FloatV NInf) n = Inr False"
| "cell_ge (StrV s) n = Inl (TypeError str_int_cmp_msg)"

text \<open>
  The result of a comparison is a boolean, or a boolean series when the left operand was a
  series. Python's \<^verbatim>\<open>or\<close>, \<^verbatim>\<open>and\<close> and \<^verbatim>\<open>if\<close> ask such a value for its
  truth, and a pandas series refuses with ValueError.
\<close>

datatype truth = B bool | BSeries "bool list"

definition ambiguous_msg :: string where
  "ambiguous_msg = ''The truth value of a Series is ambiguous. Use a.empty, a.bool(), a.item(), a.any() or a.all().''"

fun py_ge :: "pyval \<Rightarrow> int \<Rightarrow> exn + truth" where
  "py_ge (Scalar c) n = ebind (cell_ge c n) (\<lambda>b. Inr (B b))"
| "py_ge (Series cs) n = ebind (emap (\<lambda>c. cell_ge c n) cs) (\<lambda>bs. Inr (BSeries bs))"

fun truthy :: "truth \<Rightarrow> exn + bool" where
  "truthy (B b) = Inr b"
| "truthy (BSeries bs) = Inl (ValueError ambiguous_msg)"

text \<open>
  \<^verbatim>\<open>classify_row\<close>, statement by statement. \<^verbatim>\<open>a or b\<close> evaluates \<^verbatim>\<open>a\<close>, asks for
  its truth and returns \<^verbatim>\<open>a\<close> itself when true, otherwise evaluates and returns
  \<^verbatim>\<open>b\<close>; \<^verbatim>\<open>a and b\<close> is dual.
\<close>

definition classify_row :: "series \<Rightarrow> exn + string" where
  "classify_row row =
     ebind (py_ge (series_get row ''total_quantity'' (IntV 0)) 50) (\<lambda>a.
     ebind (truthy a) (\<lambda>ta.
     ebind (if ta then Inr a else py_ge (series_get row ''order_value'' (IntV 0)) 5000) (\<lambda>is_bulk.
     ebind (py_ge (series_get row ''purchase_count'' (IntV 0)) 10) (\<lambda>is_frequent.
     ebind (truthy is_bulk) (\<lambda>tb.
     ebind (if tb then truthy is_frequent else Inr False) (\<lambda>both.
       if both then Inr (category_value BOTH)
       else if tb then Inr (category_value BULK_BUYER)
       else ebind (truthy is_frequent) (\<lambda>tf.
         if tf then Inr (category_value FREQUENT_CUSTOMER)
         else Inr (category_value REGULAR))))))))"

text \<open>
  \<^verbatim>\<open>df[label] = values\<close>: a new column is appended; an existing label is overwritten in
  place, in every column that bears it.
\<close>

fun set_cells :: "string list \<Rightarrow> cell list \<Rightarrow> string \<Rightarrow> cell \<Rightarrow> cell list" where
  "set_cells (c # cs) (x # xs) label v = (if c = label then v else x) # set_cells cs xs label v"
| "set_cells _ xs label v = xs"

definition set_column :: "frame \<Rightarrow> string \<Rightarrow> cell list \<Rightarrow> frame" where
  "set_column df label vs =
     (if label \<in> set (columns df)
      then df\<lparr>rows := map (\<lambda>(r, v). set_cells (columns df) r label v) (zip (rows df) vs)\<rparr>
      else df\<lparr>columns := columns df @ [label],
              rows := map (\<lambda>(r, v). r @ [v]) (zip (rows df) vs)\<rparr>)"

text \<open>
  \<^verbatim>\<open>df.get(label, default)\<close> as the right-hand side of a column assignment: the cells of
  the column when the label occurs once, the scalar default broadcast to every row when it is
  absent. With several columns under the label pandas refuses to assign a frame to one column.
\<close>

definition column_index :: "frame \<Rightarrow> string \<Rightarrow> nat list" where
  "column_index df label = filter (\<lambda>i. columns df ! i = label) [0 ..< length (columns df)]"

definition multi_assign_msg :: "string \<Rightarrow> string" where
  "multi_assign_msg label =
     ''Cannot set a DataFrame with multiple columns to the single column '' @ label"

definition get_or_default :: "frame \<Rightarrow> string \<Rightarrow> cell \<Rightarrow> string \<Rightarrow> exn + cell list" where
  "get_or_default df label dflt target =
     (case column_index df label of
        [] \<Rightarrow> Inr (map (\<lambda>r. dflt) (rows df))
      | [i] \<Rightarrow> Inr (map (\<lambda>r. r ! i) (rows df))
      | _ \<Rightarrow> Inl (ValueError (multi_assign_msg target)))"

definition ensure_metric :: "frame \<Rightarrow> string \<Rightarrow> string \<Rightarrow> cell \<Rightarrow> exn + frame" where
  "ensure_metric df label alt dflt =
     (if label \<notin> set (columns df)
      then ebind (get_or_default df alt dflt label) (\<lambda>vs. Inr (set_column df label vs))
      else Inr df)"

text \<open>
  \<^verbatim>\<open>df['category'].value_counts().to_dict()\<close>: one key for each value that occurs in the
  column, mapped to its number of occurrences.
\<close>

definition value_counts :: "string list \<Rightarrow> (string \<rightharpoonup> nat)" where
  "value_counts xs = (\<lambda>k. if k \<in> set xs then Some (count_list xs k) else None)"

definition classify_customers :: "frame \<Rightarrow> exn + (frame \<times> (string \<rightharpoonup> nat))" where
  "classify_customers df0 =
     ebind (ensure_metric df0 ''total_quantity'' ''quantity'' (IntV 0)) (\<lambda>df1.
     ebind (ensure_metric df1 ''purchase_count'' ''orders'' (IntV 1)) (\<lambda>df2.
     ebind (ensure_metric df2 ''order_value'' ''amount'' (IntV 0)) (\<lambda>df.
     ebind (emap (\<lambda>r. classify_row (row_series df r)) (rows df)) (\<lambda>cats.
       Inr (set_column df ''category'' (map StrV cats), value_counts cats)))))"

text \<open>The classification rule as the specification words it, on numeric values.\<close>

fun is_numeric :: "cell \<Rightarrow> bool" where
  "is_numeric (StrV s) = False"
| "is_numeric (IntV i) = True"
| "is_numeric (FloatV f) = True"

fun at_least :: "cell \<Rightarrow> int \<Rightarrow> bool" where
  "at_least (IntV i) n = (n \<le> i)"
| "at_least (FloatV (Fin q)) n = (of_int n \<le> q)"
| "at_least (FloatV PInf) n = True"
| "at_least _ n = False"




section \<open>Strings\<close>

text \<open>
  A string is a list of characters with code points below 256. \<^verbatim>\<open>str.isspace\<close>, which
  \<^verbatim>\<open>str.strip()\<close> and the regular-expression class \<^verbatim>\<open>\s\<close> both follow, holds of
  the code points 9 to 13, 28 to 32, 133 and 160 in that range.
\<close>

definition py_isspace :: "char \<Rightarrow> bool" where
  "py_isspace c =
     (let n = (of_char c :: nat)
      in (9 \<le> n \<and> n \<le> 13) \<or> (28 \<le> n \<and> n \<le> 32) \<or> n = 133 \<or> n = 160)"

definition py_lower_char :: "char \<Rightarrow> char" where
  "py_lower_char c =
     (let n = (of_char c :: nat)
      in if (65 \<le> n \<and> n \<le> 90) \<or> (192 \<le> n \<and> n \<le> 222 \<and> n \<noteq> 215)
         then char_of (n + 32) else c)"

definition py_lower :: "string \<Rightarrow> string" where
  "py_lower s = map py_lower_char s"

definition py_strip :: "string \<Rightarrow> string" where
  "py_strip s = rev (dropWhile py_isspace (rev (dropWhile py_isspace s)))"

text \<open>\<^verbatim>\<open>s.replace(' ', '_')\<close>\<close>

definition replace_spaces :: "string \<Rightarrow> string" where
  "replace_spaces s = map (\<lambda>c. if c = CHR '' '' then CHR ''_'' else c) s"

text \<open>\<^verbatim>\<open>sep.join(xs)\<close>\<close>

fun join :: "string \<Rightarrow> string list \<Rightarrow> string" where
  "join sep [] = []"
| "join sep [x] = x"
| "join sep (x # y # ys) = x @ sep @ join sep (y # ys)"

text \<open>\<^verbatim>\<open>s.endswith(suffix)\<close>\<close>

definition endswith :: "string \<Rightarrow> string \<Rightarrow> bool" where
  "endswith s suffix = (length suffix \<le> length s \<and> drop (length s - length suffix) s = suffix)"

text \<open>\<^verbatim>\<open>s.split(sep)\<close> for a separator of one character\<close>

fun split_char :: "char \<Rightarrow> string \<Rightarrow> string list" where
  "split_char sep [] = [[]]"
| "split_char sep (c # cs) =
     (if c = sep then [] # split_char sep cs
      else (case split_char sep cs of
              [] \<Rightarrow> [[c]]
            | w # ws \<Rightarrow> (c # w) # ws))"

text \<open>\<^verbatim>\<open>str(i)\<close> for an integer\<close>

definition digit_char :: "nat \<Rightarrow> char" where
  "digit_char d = char_of (48 + d)"

fun nat_digits :: "nat \<Rightarrow> string" where
  "nat_digits n = (if n < 10 then [digit_char n] else nat_digits (n div 10) @ [digit_char (n mod 10)])"

definition int_str :: "int \<Rightarrow> string" where
  "int_str i = (if i < 0 then CHR ''-'' # nat_digits (nat (- i)) else nat_digits (nat i))"

text \<open>
  \<^verbatim>\<open>str(x)\<close> of a cell, as \<^verbatim>\<open>astype(str)\<close> and \<^verbatim>\<open>str()\<close> compute it. The shortest
  decimal representation that Python prints for a finite float is not part of the repository;
  it is the parameter \<open>frepr\<close>.
\<close>

fun py_str :: "(rat \<Rightarrow> string) \<Rightarrow> cell \<Rightarrow> string" where
  "py_str frepr (StrV s) = s"
| "py_str frepr (IntV i) = int_str i"
| "py_str frepr (FloatV (Fin q)) = frepr q"
| "py_str frepr (FloatV NaN) = ''nan''"
| "py_str frepr (FloatV PInf) = ''inf''"
| "py_str frepr (FloatV NInf) = ''-inf''"

section \<open>Normalisation (\<^verbatim>\<open>parse_csv_file\<close>)\<close>

text \<open>\<^verbatim>\<open>df.columns.str.lower().str.strip().str.replace(' ', '_')\<close>\<close>

definition standardize_column :: "string \<Rightarrow> string" where
  "standardize_column h = replace_spaces (py_strip (py_lower h))"

definition column_mapping :: "(string \<times> string) list" where
  "column_mapping =
     [(''customer_name'', ''name''),
      (''customer'', ''name''),
      (''full_name'', ''name''),
      (''phone_number'', ''phone''),
      (''mobile'', ''phone''),
      (''contact'', ''phone''),
      (''email_address'', ''email''),
      (''quantity'', ''total_quantity''),
      (''qty'', ''total_quantity''),
      (''orders'', ''purchase_count''),
      (''order_count'', ''purchase_count''),
      (''amount'', ''order_value''),
      (''total_amount'', ''order_value''),
      (''value'', ''order_value'')]"

text \<open>\<^verbatim>\<open>df.rename(columns=column_mapping)\<close> renames each label on its own.\<close>

definition rename_column :: "string \<Rightarrow> string" where
  "rename_column c = (case map_of column_mapping c of None \<Rightarrow> c | Some c' \<Rightarrow> c')"

definition required_cols :: "string list" where
  "required_cols = [''name'', ''phone'']"

definition missing_columns_msg :: "string list \<Rightarrow> string list \<Rightarrow> string" where
  "missing_columns_msg missing_cols cols =
     ''Missing required columns: '' @ join '', '' missing_cols @
     ''. Available columns: '' @ join '', '' cols"

text \<open>
  \<^verbatim>\<open>re.sub(r'[\s\-\(\)]', '', s)\<close>: the scan removes every character of the class and
  copies every other character.
\<close>

definition phone_class :: "char \<Rightarrow> bool" where
  "phone_class c = (py_isspace c \<or> c = CHR ''-'' \<or> c = CHR ''('' \<or> c = CHR '')'')"

fun clean_phone :: "string \<Rightarrow> string" where
  "clean_phone [] = []"
| "clean_phone (c # cs) = (if phone_class c then clean_phone cs else c # clean_phone cs)"

text \<open>
  \<^verbatim>\<open>df['phone'] = df['phone'].astype(str).str.replace(...)\<close>. With one column named phone
  the selection is a series. With several, the selection is a frame, which has no
  \<^verbatim>\<open>.str\<close> accessor.
\<close>

definition no_str_accessor_msg :: string where
  "no_str_accessor_msg = py_repr ''DataFrame'' @ '' object has no attribute '' @ py_repr ''str''"

definition clean_phone_column :: "(rat \<Rightarrow> string) \<Rightarrow> frame \<Rightarrow> exn + frame" where
  "clean_phone_column frepr df =
     (if ''phone'' \<in> set (columns df)
      then (case column_index df ''phone'' of
              [i] \<Rightarrow> Inr (set_column df ''phone''
                        (map (\<lambda>r. StrV (clean_phone (py_str frepr (r ! i)))) (rows df)))
            | _ \<Rightarrow> Inl (AttributeError no_str_accessor_msg))
      else Inr df)"

text \<open>\<^verbatim>\<open>if label not in df.columns: df[label] = scalar\<close>\<close>

definition fill_missing :: "frame \<Rightarrow> string \<Rightarrow> cell \<Rightarrow> frame" where
  "fill_missing df label v =
     (if label \<notin> set (columns df) then set_column df label (map (\<lambda>r. v) (rows df)) else df)"

text \<open>The column names after the standardisation and the renaming.\<close>

definition standardize_columns :: "frame \<Rightarrow> frame" where
  "standardize_columns df0 =
     df0\<lparr>columns := map (rename_column \<circ> standardize_column) (columns df0)\<rparr>"

text \<open>
  The part of \<^verbatim>\<open>parse_csv_file\<close> that follows the format-specific reader, from the
  standardisation of the column names to the returned frame.
\<close>

definition normalize_frame :: "(rat \<Rightarrow> string) \<Rightarrow> frame \<Rightarrow> exn + frame" where
  "normalize_frame frepr df0 =
     (let df = standardize_columns df0;
          missing_cols = filter (\<lambda>col. col \<notin> set (columns df)) required_cols
      in if missing_cols \<noteq> []
         then Inl (ValueError (missing_columns_msg missing_cols (columns df)))
         else ebind (clean_phone_column frepr df) (\<lambda>df1.
              Inr (fill_missing
                    (fill_missing
                      (fill_missing
                        (fill_missing df1 ''email'' (StrV ''''))
                        ''total_quantity'' (IntV 0))
                      ''purchase_count'' (IntV 1))
                    ''order_value'' (IntV 0))))"

section \<open>PDF extraction (\<^verbatim>\<open>_parse_pdf_file\<close>)\<close>

text \<open>
  The pdfplumber library is outside the repository. A page is represented by what its two
  extraction methods return: \<^verbatim>\<open>extract_tables()\<close> raises or returns tables (a table is a
  list of rows of optional strings), \<^verbatim>\<open>extract_text()\<close> raises or returns a string or
  \<^verbatim>\<open>None\<close>.
\<close>

type_synonym bytes = "char list"

type_synonym table = "string option list list"

record pdf_page =
  extract_tables :: "exn + table list"
  extract_text :: "exn + string option"

text \<open>
  The library functions that the parser calls: the readers of pandas, the flag that tells
  whether pdfplumber was imported, \<^verbatim>\<open>pdfplumber.open\<close>, the frame that
  \<^verbatim>\<open>pd.DataFrame(table[1:], columns=table[0])\<close> builds from one table, and
  \<^verbatim>\<open>pd.concat(all_tables, ignore_index=True).fillna('')\<close>.
\<close>

record pylib =
  float_repr :: "rat \<Rightarrow> string"
  read_csv :: "bytes \<Rightarrow> exn + frame"
  read_excel :: "bytes \<Rightarrow> exn + frame"
  pdfplumber :: bool
  pdf_open :: "bytes \<Rightarrow> exn + pdf_page list"
  table_frame :: "table \<Rightarrow> exn + frame"
  concat_fillna :: "frame list \<Rightarrow> exn + frame"

fun exn_str :: "exn \<Rightarrow> string" where
  "exn_str (ValueError m) = m"
| "exn_str (TypeError m) = m"
| "exn_str (AttributeError m) = m"
| "exn_str (HTTPException status detail) = nat_digits status @ '': '' @ detail"
| "exn_str (OtherError m) = m"

text \<open>\<^verbatim>\<open>if table and len(table) > 1\<close>\<close>

definition has_header_and_data :: "table \<Rightarrow> bool" where
  "has_header_and_data t = (t \<noteq> [] \<and> length t > 1)"

fun collect_tables :: "(table \<Rightarrow> exn + frame) \<Rightarrow> pdf_page list \<Rightarrow> exn + frame list" where
  "collect_tables tf [] = Inr []"
| "collect_tables tf (page # pages) =
     ebind (extract_tables page) (\<lambda>tables.
     ebind (emap tf (filter has_header_and_data tables)) (\<lambda>fs.
     ebind (collect_tables tf pages) (\<lambda>rest. Inr (fs @ rest))))"

text \<open>The body of the outer \<^verbatim>\<open>try\<close>: structured table extraction.\<close>

definition pdf_primary :: "pylib \<Rightarrow> bytes \<Rightarrow> exn + frame" where
  "pdf_primary lib file_content =
     ebind (pdf_open lib file_content) (\<lambda>pages.
     ebind (collect_tables (table_frame lib) pages) (\<lambda>all_tables.
       if all_tables = [] then Inl (ValueError ''No tables found in PDF'')
       else concat_fillna lib all_tables))"

definition newline :: char where
  "newline = char_of (10 :: nat)"

definition tab :: char where
  "tab = char_of (9 :: nat)"

definition none_plus_str_msg :: string where
  "none_plus_str_msg =
     ''unsupported operand type(s) for +: '' @ py_repr ''NoneType'' @ '' and '' @ py_repr ''str''"

fun collect_text :: "pdf_page list \<Rightarrow> exn + string" where
  "collect_text [] = Inr []"
| "collect_text (page # pages) =
     ebind (extract_text page) (\<lambda>t.
       case t of
         None \<Rightarrow> Inl (TypeError none_plus_str_msg)
       | Some s \<Rightarrow> ebind (collect_text pages) (\<lambda>rest. Inr (s @ [newline] @ rest)))"

text \<open>
  \<^verbatim>\<open>re.split(r'\s{2,}|\t', line)\<close>. At each position the scan tries the first alternative,
  which needs two whitespace characters and then takes the whole run, and then the second, a
  single tab; where neither matches, the character joins the current token.
\<close>

function re_split :: "string \<Rightarrow> string \<Rightarrow> string list" where
  "re_split cur [] = [cur]"
| "re_split cur (c # cs) =
     (if py_isspace c \<and> cs \<noteq> [] \<and> py_isspace (hd cs)
      then cur # re_split [] (dropWhile py_isspace cs)
      else if c = tab then cur # re_split [] cs
      else re_split (cur @ [c]) cs)"
  by pat_completeness auto
termination
  by (relation "measure (\<lambda>(cur, s). length s)")
     (auto simp: le_imp_less_Suc length_dropWhile_le)

definition tokenize :: "string \<Rightarrow> string list" where
  "tokenize line = re_split [] line"

text \<open>\<^verbatim>\<open>[line.strip() for line in text.split('\n') if line.strip()]\<close>\<close>

definition text_lines :: "string \<Rightarrow> string list" where
  "text_lines text = map py_strip (filter (\<lambda>line. py_strip line \<noteq> []) (split_char newline text))"

text \<open>The text heuristic, from the extracted text to the frame.\<close>

definition parse_text :: "string \<Rightarrow> exn + frame" where
  "parse_text text =
     (case text_lines text of
        first # second # others \<Rightarrow>
          (let header = tokenize first;
               data = filter (\<lambda>row. length row = length header) (map tokenize (second # others))
           in if data = [] then Inl (ValueError ''Could not parse PDF data'')
              else Inr \<lparr>columns = header, rows = map (map StrV) data\<rparr>)
      | _ \<Rightarrow> Inl (ValueError ''PDF does not contain enough data''))"

text \<open>The body of the inner \<^verbatim>\<open>try\<close>: the file is opened again and its text is parsed.\<close>

definition pdf_fallback :: "pylib \<Rightarrow> bytes \<Rightarrow> exn + frame" where
  "pdf_fallback lib file_content =
     ebind (pdf_open lib file_content) (\<lambda>pages.
     ebind (collect_text pages) parse_text)"

definition extraction_failed :: "exn \<Rightarrow> exn" where
  "extraction_failed parse_error =
     ValueError (''Failed to extract data from PDF: '' @ exn_str parse_error @
       ''. Please ensure the PDF contains a table with customer data.'')"

text \<open>
  \<^verbatim>\<open>_parse_pdf_file\<close>: the handler \<^verbatim>\<open>except Exception\<close> of the outer \<^verbatim>\<open>try\<close>
  receives every exception of the primary pass and runs the fallback; the handler of the
  inner \<^verbatim>\<open>try\<close> turns every exception of the fallback into one ValueError.
\<close>

definition parse_pdf_file :: "pylib \<Rightarrow> bytes \<Rightarrow> exn + frame" where
  "parse_pdf_file lib file_content =
     (if \<not> pdfplumber lib then Inl (ValueError ''pdfplumber library not installed'')
      else case pdf_primary lib file_content of
             Inr df \<Rightarrow> Inr df
           | Inl e \<Rightarrow>
               (case pdf_fallback lib file_content of
                  Inr df \<Rightarrow> Inr df
                | Inl parse_error \<Rightarrow> Inl (extraction_failed parse_error)))"

definition read_file :: "pylib \<Rightarrow> bytes \<Rightarrow> string \<Rightarrow> exn + frame" where
  "read_file lib file_content filename =
     (let filename_lower = py_lower filename
      in if endswith filename_lower ''.csv'' then read_csv lib file_content
         else if endswith filename_lower ''.xlsx'' \<or> endswith filename_lower ''.xls''
           then read_excel lib file_content
         else if endswith filename_lower ''.pdf''
           then (if \<not> pdfplumber lib
                 then Inl (ValueError ''PDF support not available. Please install pdfplumber.'')
                 else parse_pdf_file lib file_content)
         else Inl (ValueError
           ''Unsupported file format. Please upload CSV, Excel (.xlsx, .xls) or PDF file.''))"

definition parse_csv_file :: "pylib \<Rightarrow> bytes \<Rightarrow> string \<Rightarrow> exn + frame" where
  "parse_csv_file lib file_content filename =
     ebind (read_file lib file_content filename) (normalize_frame (float_repr lib))"

section \<open>Numeric conversions of Python\<close>

definition is_digit :: "char \<Rightarrow> bool" where
  "is_digit c = (48 \<le> (of_char c :: nat) \<and> (of_char c :: nat) \<le> 57)"

definition digit_value :: "char \<Rightarrow> nat" where
  "digit_value c = of_char c - 48"

text \<open>A digit part: digits with single underscores between them.\<close>

fun digitpart :: "string \<Rightarrow> bool" where
  "digitpart [] = False"
| "digitpart [c] = is_digit c"
| "digitpart (c # d # r) =
     (is_digit c \<and> (if d = CHR ''_'' then digitpart r else digitpart (d # r)))"

definition digits_value :: "string \<Rightarrow> nat" where
  "digits_value s = foldl (\<lambda>a c. if c = CHR ''_'' then a else 10 * a + digit_value c) 0 s"

definition split_sign :: "string \<Rightarrow> bool \<times> string" where
  "split_sign s =
     (case s of
        c # r \<Rightarrow> (if c = CHR ''-'' then (True, r) else if c = CHR ''+'' then (False, r) else (False, s))
      | [] \<Rightarrow> (False, s))"

text \<open>\<^verbatim>\<open>int(s)\<close> for a string: whitespace around, a sign, a digit part; \<open>None\<close> is ValueError.\<close>

definition int_of_str :: "string \<Rightarrow> int option" where
  "int_of_str s =
     (let (neg, body) = split_sign (py_strip s)
      in if digitpart body
         then Some (if neg then - int (digits_value body) else int (digits_value body))
         else None)"

text \<open>
  \<^verbatim>\<open>float(s)\<close> for a string. An underscore must stand between two digits. After the sign
  come \<^verbatim>\<open>inf\<close>, \<^verbatim>\<open>infinity\<close> or \<^verbatim>\<open>nan\<close> in any case, or digits with an optional
  point and an optional exponent; the whole string must be consumed.
\<close>

fun underscores_ok :: "char \<Rightarrow> string \<Rightarrow> bool" where
  "underscores_ok prev [] = (prev \<noteq> CHR ''_'')"
| "underscores_ok prev (c # cs) =
     (if c = CHR ''_'' then is_digit prev \<and> underscores_ok c cs
      else (prev = CHR ''_'' \<longrightarrow> is_digit c) \<and> underscores_ok c cs)"

definition scale10 :: "rat \<Rightarrow> int \<Rightarrow> rat" where
  "scale10 x e = (if 0 \<le> e then x * 10 ^ nat e else x / 10 ^ nat (- e))"

definition exponent_of :: "string \<Rightarrow> int option" where
  "exponent_of s =
     (case s of
        [] \<Rightarrow> Some 0
      | c # r \<Rightarrow>
          (if c = CHR ''e'' \<or> c = CHR ''E''
           then (let (neg, ds) = split_sign r
                 in if ds \<noteq> [] \<and> list_all is_digit ds
                    then Some (if neg then - int (digits_value ds) else int (digits_value ds))
                    else None)
           else None))"

definition float_number :: "string \<Rightarrow> rat option" where
  "float_number s =
     (let d1 = takeWhile is_digit s;
          r1 = dropWhile is_digit s;
          (d2, r2) = (case r1 of
                        c # r \<Rightarrow> (if c = CHR ''.'' then (takeWhile is_digit r, dropWhile is_digit r)
                                  else ([], r1))
                      | [] \<Rightarrow> ([], r1))
      in if d1 = [] \<and> d2 = [] then None
         else (case exponent_of r2 of
                 None \<Rightarrow> None
               | Some e \<Rightarrow>
                   Some (scale10 (of_nat (digits_value (d1 @ d2)) / 10 ^ length d2) e)))"

definition float_of_str :: "string \<Rightarrow> pyfloat option" where
  "float_of_str s =
     (let t = py_strip s
      in if \<not> underscores_ok (char_of (0 :: nat)) t then None
         else (let (neg, body) = split_sign (filter (\<lambda>c. c \<noteq> CHR ''_'') t);
                   word = py_lower body
               in if word = ''inf'' \<or> word = ''infinity'' then Some (if neg then NInf else PInf)
                  else if word = ''nan'' then Some NaN
                  else (case float_number body of
                          None \<Rightarrow> None
                        | Some q \<Rightarrow> Some (Fin (if neg then - q else q)))))"

text \<open>\<^verbatim>\<open>float(x)\<close>\<close>

fun py_float :: "cell \<Rightarrow> exn + pyfloat" where
  "py_float (IntV i) = Inr (Fin (of_int i))"
| "py_float (FloatV f) = Inr f"
| "py_float (StrV s) =
     (case float_of_str s of
        None \<Rightarrow> Inl (ValueError (''could not convert string to float: '' @ py_repr s))
      | Some f \<Rightarrow> Inr f)"

text \<open>\<^verbatim>\<open>int(x)\<close>; a float is truncated towards zero.\<close>

definition py_trunc :: "rat \<Rightarrow> int" where
  "py_trunc q = (if 0 \<le> q then \<lfloor>q\<rfloor> else \<lceil>q\<rceil>)"

fun py_int :: "cell \<Rightarrow> exn + int" where
  "py_int (IntV i) = Inr i"
| "py_int (FloatV (Fin q)) = Inr (py_trunc q)"
| "py_int (FloatV NaN) = Inl (ValueError ''cannot convert float NaN to integer'')"
| "py_int (FloatV PInf) = Inl (OtherError ''cannot convert float infinity to integer'')"
| "py_int (FloatV NInf) = Inl (OtherError ''cannot convert float infinity to integer'')"
| "py_int (StrV s) =
     (case int_of_str s of
        None \<Rightarrow> Inl (ValueError (''invalid literal for int() with base 10: '' @ py_repr s))
      | Some i \<Rightarrow> Inr i)"

section \<open>Customer documents (\<^verbatim>\<open>CustomerService\<close>)\<close>

text \<open>
  \<^verbatim>\<open>row.to_dict()\<close> inserts the pairs of the series into a dictionary in order, so a label
  that occurs again overwrites the value stored under it.
\<close>

type_synonym pydict = "(string \<times> cell) list"

fun dict_set :: "pydict \<Rightarrow> string \<Rightarrow> cell \<Rightarrow> pydict" where
  "dict_set [] k v = [(k, v)]"
| "dict_set ((k', v') # d) k v = (if k' = k then (k, v) # d else (k', v') # dict_set d k v)"

definition to_dict :: "series \<Rightarrow> pydict" where
  "to_dict row = foldl (\<lambda>d kv. dict_set d (fst kv) (snd kv)) [] row"

definition dict_get :: "pydict \<Rightarrow> string \<Rightarrow> cell \<Rightarrow> cell" where
  "dict_get d k dflt = (case map_of d k of None \<Rightarrow> dflt | Some v \<Rightarrow> v)"

record customer_doc =
  doc_id :: string
  user_id :: string
  name :: string
  phone :: string
  email :: string
  category :: cell
  total_quantity :: pyfloat
  purchase_count :: int
  order_value :: pyfloat
  uploaded_at :: string
  source_file :: string
  file_url :: "string option"
  file_id :: "string option"
  custom_fields :: "pydict option"

definition standard_fields :: "string list" where
  "standard_fields =
     [''name'', ''phone'', ''email'', ''category'', ''total_quantity'', ''purchase_count'',
      ''order_value'']"

text \<open>\<^verbatim>\<open>pd.notna(v)\<close>\<close>

definition notna :: "cell \<Rightarrow> bool" where
  "notna v = (v \<noteq> FloatV NaN)"

text \<open>\<^verbatim>\<open>if file_url:\<close> holds of a string that is present and not empty.\<close>

definition given :: "string option \<Rightarrow> string option" where
  "given x = (case x of None \<Rightarrow> None | Some s \<Rightarrow> if s = [] then None else Some s)"

text \<open>
  The body of the loop over \<^verbatim>\<open>df.iterrows()\<close>. The entries of the dictionary literal are
  evaluated in order, so the conversion of total_quantity fails first, then that of
  purchase_count, then that of order_value. The identifier and the timestamp are given.
\<close>

definition build_doc ::
  "(rat \<Rightarrow> string) \<Rightarrow> string \<Rightarrow> string \<Rightarrow> string \<Rightarrow> string \<Rightarrow> string option \<Rightarrow> string option
     \<Rightarrow> series \<Rightarrow> exn + customer_doc" where
  "build_doc frepr uuid4 now uid filename furl fid row =
     (let customer_data = to_dict row
      in ebind (py_float (dict_get customer_data ''total_quantity'' (IntV 0))) (\<lambda>tq.
         ebind (py_int (dict_get customer_data ''purchase_count'' (IntV 1))) (\<lambda>pc.
         ebind (py_float (dict_get customer_data ''order_value'' (IntV 0))) (\<lambda>ov.
           let additional_fields =
                 filter (\<lambda>kv. fst kv \<notin> set standard_fields \<and> notna (snd kv)) customer_data
           in Inr \<lparr>doc_id = uuid4,
                   user_id = uid,
                   name = py_strip (py_str frepr (dict_get customer_data ''name'' (StrV ''''))),
                   phone = py_strip (py_str frepr (dict_get customer_data ''phone'' (StrV ''''))),
                   email = py_strip (py_str frepr (dict_get customer_data ''email'' (StrV ''''))),
                   category = dict_get customer_data ''category'' (StrV ''regular''),
                   total_quantity = tq,
                   purchase_count = pc,
                   order_value = ov,
                   uploaded_at = now,
                   source_file = filename,
                   file_url = given furl,
                   file_id = given fid,
                   custom_fields =
                     (if additional_fields \<noteq> [] then Some additional_fields else None)\<rparr>))))"

fun build_docs ::
  "(rat \<Rightarrow> string) \<Rightarrow> (nat \<Rightarrow> string) \<Rightarrow> (nat \<Rightarrow> string) \<Rightarrow> string \<Rightarrow> string \<Rightarrow> string option
     \<Rightarrow> string option \<Rightarrow> nat \<Rightarrow> series list \<Rightarrow> exn + customer_doc list" where
  "build_docs frepr uuid4 now uid filename furl fid i [] = Inr []"
| "build_docs frepr uuid4 now uid filename furl fid i (row # more_rows) =
     ebind (build_doc frepr (uuid4 i) (now i) uid filename furl fid row) (\<lambda>d.
     ebind (build_docs frepr uuid4 now uid filename furl fid (Suc i) more_rows) (\<lambda>ds.
       Inr (d # ds)))"

record upload_result =
  total_customers :: nat
  classifications :: "string \<rightharpoonup> nat"
  customers :: "customer_doc list"

text \<open>
  \<^verbatim>\<open>CustomerService.upload_customers\<close>. The customers collection is the list of its
  documents; \<^verbatim>\<open>insert_many\<close> appends. An exception leaves the collection as it was.
\<close>

definition upload_customers ::
  "pylib \<Rightarrow> (nat \<Rightarrow> string) \<Rightarrow> (nat \<Rightarrow> string) \<Rightarrow> bytes \<Rightarrow> string \<Rightarrow> string \<Rightarrow> string option
     \<Rightarrow> string option \<Rightarrow> customer_doc list \<Rightarrow> (exn + upload_result) \<times> customer_doc list" where
  "upload_customers lib uuid4 now file_content filename uid furl fid db =
     (case ebind (parse_csv_file lib file_content filename) (\<lambda>df0.
           ebind (classify_customers df0) (\<lambda>(df, counts).
           ebind (build_docs (float_repr lib) uuid4 now uid filename furl fid 0
                    (map (row_series df) (rows df))) (\<lambda>docs.
             Inr (docs, counts)))) of
        Inl e \<Rightarrow> (Inl e, db)
      | Inr (docs, counts) \<Rightarrow>
          (Inr \<lparr>total_customers = length docs, classifications = counts, customers = docs\<rparr>,
           if docs \<noteq> [] then db @ docs else db))"

text \<open>
  \<^verbatim>\<open>find({"user_id": user_id}).sort("uploaded_at", -1).to_list(1000)\<close> and
  \<^verbatim>\<open>delete_many({"user_id": user_id})\<close>. Timestamps are ISO strings, compared as strings.
\<close>

definition list_customers :: "customer_doc list \<Rightarrow> string \<Rightarrow> customer_doc list \<times> nat" where
  "list_customers db uid =
     (let found = take 1000 (rev (sort_key uploaded_at (filter (\<lambda>d. user_id d = uid) db)))
      in (found, length found))"

definition clear_customers :: "customer_doc list \<Rightarrow> string \<Rightarrow> nat \<times> customer_doc list" where
  "clear_customers db uid =
     (length (filter (\<lambda>d. user_id d = uid) db), filter (\<lambda>d. user_id d \<noteq> uid) db)"

section \<open>The upload route (\<^verbatim>\<open>routes/customers.py\<close>)\<close>

text \<open>
  The allowed extensions are a set in the source; the list fixes the order in which the
  message of the route enumerates them, which Python leaves open.
\<close>

definition allowed_extensions :: "string list" where
  "allowed_extensions = [''.csv'', ''.xlsx'', ''.xls'', ''.pdf'']"

text \<open>\<^verbatim>\<open>'.' + filename.rsplit('.', 1)[-1].lower()\<close>\<close>

definition file_ext :: "string \<Rightarrow> string" where
  "file_ext filename = ''.'' @ py_lower (rev (takeWhile (\<lambda>c. c \<noteq> CHR ''.'') (rev filename)))"

text \<open>
  The body of the \<^verbatim>\<open>try\<close> block. The file service (\<open>upload_file\<close>) and the customer
  service (\<open>process\<close>, which receives the file URL and the file identifier) act on the state
  \<open>w\<close> of the storage and the database.
\<close>

definition upload_body ::
  "('w \<Rightarrow> (exn + string \<times> string) \<times> 'w) \<Rightarrow> (string \<times> string \<Rightarrow> 'w \<Rightarrow> (exn + 'r) \<times> 'w)
     \<Rightarrow> string \<Rightarrow> bytes \<Rightarrow> 'w \<Rightarrow> (exn + 'r) \<times> 'w" where
  "upload_body upload_file process filename content w =
     (if file_ext filename \<notin> set allowed_extensions
      then (Inl (HTTPException 400
              (''Unsupported file format. Allowed: '' @ join '', '' allowed_extensions)), w)
      else if length content = 0 then (Inl (HTTPException 400 ''File is empty''), w)
      else (case upload_file w of
              (Inl e, w1) \<Rightarrow> (Inl e, w1)
            | (Inr file_metadata, w1) \<Rightarrow> process file_metadata w1))"

text \<open>
  The handlers: \<^verbatim>\<open>except ValueError\<close> answers 400 with the message, and
  \<^verbatim>\<open>except Exception\<close> answers 500 for every other exception, the HTTPException raised
  in the body included.
\<close>

fun handle_upload_error :: "exn \<Rightarrow> exn" where
  "handle_upload_error (ValueError m) = HTTPException 400 m"
| "handle_upload_error e = HTTPException 500 (''Failed to process file: '' @ exn_str e)"

definition upload_route ::
  "('w \<Rightarrow> (exn + string \<times> string) \<times> 'w) \<Rightarrow> (string \<times> string \<Rightarrow> 'w \<Rightarrow> (exn + 'r) \<times> 'w)
     \<Rightarrow> string \<Rightarrow> bytes \<Rightarrow> 'w \<Rightarrow> (exn + 'r) \<times> 'w" where
  "upload_route upload_file process filename content w =
     (case upload_body upload_file process filename content w of
        (Inl e, w') \<Rightarrow> (Inl (handle_upload_error e), w')
      | (Inr r, w') \<Rightarrow> (Inr r, w'))"

section \<open>Well-formed frames and counting\<close>

text \<open>Every row of a frame has one cell per column.\<close>

definition wf_frame :: "frame \<Rightarrow> bool" where
  "wf_frame df = list_all (\<lambda>r. length r = length (columns df)) (rows df)"

text \<open>The number of rows of a frame whose cell under \<open>category\<close> is the string \<open>k\<close>.\<close>

definition rows_in_category :: "frame \<Rightarrow> string \<Rightarrow> nat" where
  "rows_in_category df k =
     length (filter (\<lambda>r. StrV k \<in> set (lookup_all (row_series df r) ''category'')) (rows df))"

text \<open>The cell that normalisation writes under a label that the file lacks.\<close>

definition default_of :: "string \<Rightarrow> cell list" where
  "default_of l =
     (if l = ''email'' then [StrV '''']
      else if l = ''total_quantity'' then [IntV 0]
      else if l = ''purchase_count'' then [IntV 1]
      else if l = ''order_value'' then [IntV 0]
      else [])"

section \<open>Concrete inputs\<close>


definition ex_regular_frame :: frame where
  "ex_regular_frame =
     \<lparr>columns = [''name'', ''phone'', ''email'', ''total_quantity'', ''purchase_count'',
                  ''order_value''],
      rows = [[StrV ''Al'', StrV ''5551234567'', StrV ''al@example.com'', IntV 5, IntV 2,
               IntV 100]]\<rparr>"

definition ex_regular_classified :: frame where
  "ex_regular_classified =
     \<lparr>columns = [''name'', ''phone'', ''email'', ''total_quantity'', ''purchase_count'',
                  ''order_value'', ''category''],
      rows = [[StrV ''Al'', StrV ''5551234567'', StrV ''al@example.com'', IntV 5, IntV 2,
               IntV 100, StrV ''regular'']]\<rparr>"

text \<open>
  A float printer for the concrete inputs. It prints a float of integral value as Python does
  (\<^verbatim>\<open>60.0\<close>); the inputs below hold no other float.
\<close>

definition ex_float_repr :: "rat \<Rightarrow> string" where
  "ex_float_repr q = int_str (py_trunc q) @ ''.0''"

definition ex_email_amount :: frame where
  "ex_email_amount =
     \<lparr>columns = [''email'', ''amount''], rows = [[StrV ''al@example.com'', IntV 120]]\<rparr>"

definition ex_phone_frame :: frame where
  "ex_phone_frame =
     \<lparr>columns = [''Name'', ''Phone Number''], rows = [[StrV ''Al'', StrV ''(555) 123-4567'']]\<rparr>"

definition ex_phone_normalized :: frame where
  "ex_phone_normalized =
     \<lparr>columns = [''name'', ''phone'', ''email'', ''total_quantity'', ''purchase_count'',
                  ''order_value''],
      rows = [[StrV ''Al'', StrV ''5551234567'', StrV '''', IntV 0, IntV 1, IntV 0]]\<rparr>"

text \<open>
  The text of a PDF page: a header line of three tokens, a line of three tokens and a line of
  two tokens.
\<close>

definition ex_page_text :: string where
  "ex_page_text =
     ''name  phone  email'' @ [newline] @
     ''Al  5551234567  al@example.com'' @ [newline] @
     ''Bo  5557654321''"

definition ex_text_frame :: frame where
  "ex_text_frame =
     \<lparr>columns = [''name'', ''phone'', ''email''],
      rows = [[StrV ''Al'', StrV ''5551234567'', StrV ''al@example.com'']]\<rparr>"

text \<open>
  Two PDF files of one page with that text. In the first the table detection raises an
  error; in the second it finds no table. The readers of the other formats and the frame
  construction are not reached for a PDF file without tables.
\<close>

definition ex_failing_page :: pdf_page where
  "ex_failing_page =
     \<lparr>extract_tables = Inl (OtherError ''table detection failed''),
      extract_text = Inr (Some ex_page_text)\<rparr>"

definition ex_tableless_page :: pdf_page where
  "ex_tableless_page = \<lparr>extract_tables = Inr [], extract_text = Inr (Some ex_page_text)\<rparr>"

definition ex_lib :: "pdf_page \<Rightarrow> pylib" where
  "ex_lib page =
     \<lparr>float_repr = ex_float_repr,
      read_csv = (\<lambda>content. Inr ex_regular_frame),
      read_excel = (\<lambda>content. Inr ex_regular_frame),
      pdfplumber = True,
      pdf_open = (\<lambda>content. Inr [page]),
      table_frame = (\<lambda>t. Inl (OtherError ''no table expected'')),
      concat_fillna = (\<lambda>fs. Inl (OtherError ''no table expected''))\<rparr>"

definition ex_content :: bytes where
  "ex_content = ''%PDF-1.7''"

text \<open>The services behind the upload route, on a database that is a list of documents.\<close>

definition ex_uuid4 :: "nat \<Rightarrow> string" where
  "ex_uuid4 i = ''id-'' @ nat_digits i"

definition ex_now :: "nat \<Rightarrow> string" where
  "ex_now i = ''2024-01-01T00:00:00+00:00''"

definition ex_upload_file ::
  "customer_doc list \<Rightarrow> (exn + string \<times> string) \<times> customer_doc list" where
  "ex_upload_file db = (Inr (''https://files.example.com/x.csv'', ''file-1''), db)"

definition ex_process ::
  "string \<times> string \<Rightarrow> customer_doc list \<Rightarrow> (exn + upload_result) \<times> customer_doc list" where
  "ex_process file_metadata db =
     upload_customers (ex_lib ex_tableless_page) ex_uuid4 ex_now [] ''x.csv'' ''user-1''
       (Some (fst file_metadata)) (Some (snd file_metadata)) db"

definition ex_doc :: customer_doc where
  "ex_doc =
     \<lparr>doc_id = ''id-0'', user_id = ''user-1'', name = ''Al'', phone = ''5551234567'',
      email = ''al@example.com'', category = StrV ''regular'', total_quantity = Fin 5,
      purchase_count = 2, order_value = Fin 100, uploaded_at = ''2024-01-01T00:00:00+00:00'',
      source_file = ''x.csv'', file_url = None, file_id = None, custom_fields = None\<rparr>"








text \<open>
  A file with both total_quantity and its synonym quantity, a file with both name and its
  synonym customer_name, and a file with both phone and its synonym mobile.
\<close>

definition ex_dup_quantity :: frame where
  "ex_dup_quantity =
     \<lparr>columns = [''name'', ''phone'', ''total_quantity'', ''quantity''],
      rows = [[StrV ''Al'', StrV ''5551234567'', IntV 5, IntV 60]]\<rparr>"

definition ex_dup_quantity_normalized :: frame where
  "ex_dup_quantity_normalized =
     \<lparr>columns = [''name'', ''phone'', ''total_quantity'', ''total_quantity'', ''email'',
                  ''purchase_count'', ''order_value''],
      rows = [[StrV ''Al'', StrV ''5551234567'', IntV 5, IntV 60, StrV '''', IntV 1, IntV 0]]\<rparr>"

definition ex_dup_name :: frame where
  "ex_dup_name =
     \<lparr>columns = [''name'', ''customer_name'', ''phone''],
      rows = [[StrV ''Al'', StrV ''Alice'', StrV ''5551234567'']]\<rparr>"

definition ex_dup_name_normalized :: frame where
  "ex_dup_name_normalized =
     \<lparr>columns = [''name'', ''name'', ''phone'', ''email'', ''total_quantity'',
                  ''purchase_count'', ''order_value''],
      rows = [[StrV ''Al'', StrV ''Alice'', StrV ''5551234567'', StrV '''', IntV 0, IntV 1,
               IntV 0]]\<rparr>"

definition ex_dup_phone :: frame where
  "ex_dup_phone =
     \<lparr>columns = [''name'', ''phone'', ''mobile''],
      rows = [[StrV ''Al'', StrV ''5551234567'', StrV ''5557654321'']]\<rparr>"




section \<open>Lemmas on frames\<close>

lemma ebind_Inr: "ebind m f = Inr y \<longleftrightarrow> (\<exists>x. m = Inr x \<and> f x = Inr y)"
  by (cases m) (auto simp: ebind_def)

lemma ebind_Inl: "ebind m f = Inl e \<longleftrightarrow> (m = Inl e \<or> (\<exists>x. m = Inr x \<and> f x = Inl e))"
  by (cases m) (auto simp: ebind_def)

lemma emap_length: "emap f xs = Inr ys \<Longrightarrow> length ys = length xs"
  by (induction xs arbitrary: ys) (auto split: sum.splits)

lemma lookup_set_cells:
  "length r = length cs \<Longrightarrow> l \<in> set cs \<Longrightarrow> set (lookup_all (zip cs (set_cells cs r l v)) l) = {v}"
proof (induction cs r l v rule: set_cells.induct)
  case (1 c cs x xs label v)
  then show ?case
    by (cases "label \<in> set cs") (auto simp: lookup_all_def dest: set_zip_leftD)
qed auto

lemma length_set_cells: "length (set_cells cs r l v) = length r"
  by (induction cs r l v rule: set_cells.induct) auto

lemma lookup_append_new:
  "l \<notin> set cs \<Longrightarrow> lookup_all (zip cs r @ [(l, v)]) l = [v]"
  by (auto simp: lookup_all_def filter_empty_conv dest: set_zip_leftD)

lemma wf_set_column:
  "wf_frame df \<Longrightarrow> wf_frame (set_column df l vs)"
  by (auto simp: wf_frame_def set_column_def list_all_iff length_set_cells dest!: set_zip_leftD)

lemma length_rows_set_column:
  "length vs = length (rows df) \<Longrightarrow> length (rows (set_column df l vs)) = length (rows df)"
  by (simp add: set_column_def)

lemma columns_set_column:
  "columns (set_column df l vs) = (if l \<in> set (columns df) then columns df else columns df @ [l])"
  by (simp add: set_column_def)

lemma row_set_column:
  assumes "wf_frame df" "length vs = length (rows df)" "i < length (rows df)"
  shows "set (lookup_all (row_series (set_column df l vs) (rows (set_column df l vs) ! i)) l) = {vs ! i}"
proof -
  have len: "length (rows df ! i) = length (columns df)"
    using assms by (simp add: wf_frame_def list_all_length)
  show ?thesis
  proof (cases "l \<in> set (columns df)")
    case True
    then show ?thesis using assms len
      by (simp add: set_column_def row_series_def lookup_set_cells)
  next
    case False
    then show ?thesis using assms len
      by (simp add: set_column_def row_series_def lookup_append_new)
  qed
qed

lemma count_filter_nth:
  assumes "length xs = length vs" "\<And>i. i < length xs \<Longrightarrow> P (xs ! i) \<longleftrightarrow> vs ! i = v"
  shows "length (filter P xs) = count_list vs v"
  using assms
proof (induction xs vs rule: list_induct2)
  case Nil
  then show ?case by simp
next
  case (Cons x xs y ys)
  have "length (filter P xs) = count_list ys v"
    using Cons.prems [of "Suc _"] by (intro Cons.IH) auto
  moreover have "P x \<longleftrightarrow> y = v" using Cons.prems [of 0] by simp
  ultimately show ?case by simp
qed

lemma rows_in_category_set_column:
  assumes "wf_frame df" "length cats = length (rows df)"
  shows "rows_in_category (set_column df ''category'' (map StrV cats)) k = count_list cats k"
proof -
  let ?df' = "set_column df ''category'' (map StrV cats)"
  have len: "length (rows ?df') = length cats"
    using assms by (simp add: length_rows_set_column)
  have "StrV k \<in> set (lookup_all (row_series ?df' (rows ?df' ! i)) ''category'') \<longleftrightarrow> cats ! i = k"
    if "i < length (rows ?df')" for i
    using that row_set_column [OF assms(1), of "map StrV cats" i "''category''"] assms(2) len
    by auto
  then show ?thesis
    unfolding rows_in_category_def by (intro count_filter_nth len) auto
qed

lemma wf_ensure_metric:
  "wf_frame df \<Longrightarrow> ensure_metric df l alt d = Inr df' \<Longrightarrow> wf_frame df'"
  by (auto simp: ensure_metric_def ebind_Inr wf_set_column split: if_splits)

lemma zip_as_map_nth:
  assumes "length r = length cs"
  shows "zip cs r = map (\<lambda>i. (cs ! i, r ! i)) [0 ..< length cs]"
  using assms by (intro nth_equalityI) auto

lemma lookup_zip_nth:
  assumes "length r = length cs"
  shows "lookup_all (zip cs r) l = map (\<lambda>i. r ! i) (filter (\<lambda>i. cs ! i = l) [0 ..< length cs])"
  unfolding lookup_all_def zip_as_map_nth [OF assms] filter_map
  by (simp add: comp_def)

lemma lookup_set_cells_same:
  "lookup_all (zip cs (set_cells cs r l v)) l = map (\<lambda>x. v) (lookup_all (zip cs r) l)"
  by (induction cs r l v rule: set_cells.induct) (auto simp: lookup_all_def)

lemma lookup_set_cells_other:
  "l' \<noteq> l \<Longrightarrow> lookup_all (zip cs (set_cells cs r l v)) l' = lookup_all (zip cs r) l'"
  by (induction cs r l v rule: set_cells.induct) (auto simp: lookup_all_def)

lemma lookup_snoc:
  "lookup_all (xs @ [(l, v)]) l' = (if l' = l then lookup_all xs l' @ [v] else lookup_all xs l')"
  by (simp add: lookup_all_def)

lemma lookup_absent: "l \<notin> set cs \<Longrightarrow> lookup_all (zip cs r) l = []"
  by (auto simp: lookup_all_def filter_empty_conv dest: set_zip_leftD)

lemma nth_rows_set_column:
  assumes "length vs = length (rows df)" "i < length (rows df)"
  shows "rows (set_column df l vs) ! i =
     (if l \<in> set (columns df) then set_cells (columns df) (rows df ! i) l (vs ! i)
      else rows df ! i @ [vs ! i])"
  using assms by (simp add: set_column_def)

lemma lookup_row_set_column:
  assumes "wf_frame df" "length vs = length (rows df)" "i < length (rows df)"
  shows "lookup_all (row_series (set_column df l vs) (rows (set_column df l vs) ! i)) l' =
     (if l' = l
      then (if l \<in> set (columns df)
            then map (\<lambda>x. vs ! i) (lookup_all (row_series df (rows df ! i)) l)
            else [vs ! i])
      else lookup_all (row_series df (rows df ! i)) l')"
proof -
  have len: "length (rows df ! i) = length (columns df)"
    using assms by (simp add: wf_frame_def list_all_length)
  show ?thesis
    using len
    by (simp add: row_series_def nth_rows_set_column [OF assms(2,3)] columns_set_column
        lookup_set_cells_same lookup_set_cells_other lookup_snoc lookup_absent)
qed

lemma columns_fill_missing:
  "columns (fill_missing df l v) = (if l \<in> set (columns df) then columns df else columns df @ [l])"
  by (simp add: fill_missing_def columns_set_column)

lemma length_rows_fill_missing: "length (rows (fill_missing df l v)) = length (rows df)"
  by (simp add: fill_missing_def length_rows_set_column)

lemma wf_fill_missing: "wf_frame df \<Longrightarrow> wf_frame (fill_missing df l v)"
  by (simp add: fill_missing_def wf_set_column)

lemma lookup_row_fill_missing:
  assumes "wf_frame df" "i < length (rows df)"
  shows "lookup_all (row_series (fill_missing df l v) (rows (fill_missing df l v) ! i)) l' =
     (if l' = l \<and> l \<notin> set (columns df) then [v]
      else lookup_all (row_series df (rows df ! i)) l')"
  using assms
  by (simp add: fill_missing_def lookup_row_set_column)

lemma map_of_dict_set: "map_of (dict_set d k v) k' = (if k' = k then Some v else map_of d k')"
  by (induction d k v rule: dict_set.induct) auto

lemma map_of_foldl_dict_set:
  "map_of (foldl (\<lambda>d kv. dict_set d (fst kv) (snd kv)) d row) k =
     (if lookup_all row k = [] then map_of d k else Some (last (lookup_all row k)))"
  by (induction row arbitrary: d) (auto simp: map_of_dict_set lookup_all_def)

lemma dict_get_to_dict:
  "dict_get (to_dict row) k dflt =
     (if lookup_all row k = [] then dflt else last (lookup_all row k))"
  by (simp add: dict_get_def to_dict_def map_of_foldl_dict_set)
section \<open>Properties of the classifier\<close>

lemma cell_ge_numeric: "is_numeric c \<Longrightarrow> cell_ge c n = Inr (at_least c n)"
  by (cases "(c, n)" rule: cell_ge.cases) auto








section \<open>Category counts\<close>

lemma classify_customers_Inr:
  assumes "classify_customers df0 = Inr (df', counts)"
  obtains df cats where
    "\<exists>df1 df2. ensure_metric df0 ''total_quantity'' ''quantity'' (IntV 0) = Inr df1
       \<and> ensure_metric df1 ''purchase_count'' ''orders'' (IntV 1) = Inr df2
       \<and> ensure_metric df2 ''order_value'' ''amount'' (IntV 0) = Inr df"
    "emap (\<lambda>r. classify_row (row_series df r)) (rows df) = Inr cats"
    "df' = set_column df ''category'' (map StrV cats)"
    "counts = value_counts cats"
  using assms unfolding classify_customers_def ebind_Inr by auto

text \<open>
  C2, in the form that holds of the code. The counts returned by \<^verbatim>\<open>classify_customers\<close> have an entry for exactly
  the category values that occur in at least one row of the classified frame, and the entry is
  the number of these rows; a category that occurs in no row has no entry.
\<close>

theorem category_counts_present_only:
  assumes "wf_frame df0" and "classify_customers df0 = Inr (df', counts)"
  shows "counts k = (if rows_in_category df' k = 0 then None else Some (rows_in_category df' k))"
proof -
  from assms(2) obtain df cats where
    e: "\<exists>df1 df2. ensure_metric df0 ''total_quantity'' ''quantity'' (IntV 0) = Inr df1
       \<and> ensure_metric df1 ''purchase_count'' ''orders'' (IntV 1) = Inr df2
       \<and> ensure_metric df2 ''order_value'' ''amount'' (IntV 0) = Inr df"
    and c: "emap (\<lambda>r. classify_row (row_series df r)) (rows df) = Inr cats"
    and d: "df' = set_column df ''category'' (map StrV cats)"
    and v: "counts = value_counts cats"
    by (rule classify_customers_Inr)
  have wf: "wf_frame df" using e assms(1) by (blast intro: wf_ensure_metric)
  have "rows_in_category df' k = count_list cats k"
    unfolding d using wf emap_length [OF c] by (rule rows_in_category_set_column)
  then show ?thesis
    by (simp add: v value_counts_def count_list_0_iff)
qed

lemma classify_ex_regular:
  "classify_customers ex_regular_frame = Inr (ex_regular_classified, value_counts [''regular''])"
  by (simp add: classify_customers_def ensure_metric_def ex_regular_frame_def
      ex_regular_classified_def ebind_def row_series_def classify_row_def series_get_def
      lookup_all_def set_column_def)

lemma wf_ex_regular: "wf_frame ex_regular_frame"
  by (simp add: wf_frame_def ex_regular_frame_def)

text \<open>The theorem at a frame with one regular customer.\<close>

theorem category_counts_present_only_witness:
  "wf_frame ex_regular_frame \<and>
   classify_customers ex_regular_frame = Inr (ex_regular_classified, value_counts [''regular'']) \<and>
   value_counts [''regular''] ''regular'' = Some 1 \<and>
   rows_in_category ex_regular_classified ''regular'' = 1"
proof -
  have r: "rows_in_category ex_regular_classified ''regular'' = 1"
    by code_simp
  have "value_counts [''regular''] ''regular'' =
      (if rows_in_category ex_regular_classified ''regular'' = 0 then None
       else Some (rows_in_category ex_regular_classified ''regular''))"
    using category_counts_present_only [OF wf_ex_regular classify_ex_regular] .
  then show ?thesis
    using wf_ex_regular classify_ex_regular r by simp
qed

text \<open>
  For that frame the counts have no entry for \<open>both\<close>: the statement that all four category
  values are always present fails.
\<close>

theorem category_counts_all_four_counterexample:
  "\<not> isl (classify_customers ex_regular_frame) \<and>
   ''both'' \<notin> dom (snd (projr (classify_customers ex_regular_frame)))"
  by (simp add: classify_ex_regular value_counts_def dom_def)

section \<open>Normalisation\<close>

lemma wf_standardize_columns: "wf_frame df \<Longrightarrow> wf_frame (standardize_columns df)"
  by (simp add: wf_frame_def standardize_columns_def)

lemma rows_standardize_columns: "rows (standardize_columns df) = rows df"
  by (simp add: standardize_columns_def)

text \<open>
  C4. When name or phone is not among the column names after the header transformation and
  the synonym mapping, normalisation fails with a ValueError whose message lists the missing
  required names and then all the column names that were found.
\<close>

theorem missing_required_columns:
  assumes "cols = columns (standardize_columns df)"
    and "''name'' \<notin> set cols \<or> ''phone'' \<notin> set cols"
  shows "normalize_frame frepr df =
     Inl (ValueError (''Missing required columns: '' @
            join '', '' (filter (\<lambda>col. col \<notin> set cols) [''name'', ''phone'']) @
            ''. Available columns: '' @ join '', '' cols))"
  using assms
  by (auto simp: normalize_frame_def Let_def required_cols_def missing_columns_msg_def)

text \<open>A file with only the columns email and amount.\<close>

theorem missing_required_columns_witness:
  "columns (standardize_columns ex_email_amount) = [''email'', ''order_value''] \<and>
   ''name'' \<notin> set [''email'', ''order_value''] \<and>
   ''phone'' \<notin> set [''email'', ''order_value''] \<and>
   normalize_frame ex_float_repr ex_email_amount =
     Inl (ValueError
       ''Missing required columns: name, phone. Available columns: email, order_value'')"
proof -
  have c: "columns (standardize_columns ex_email_amount) = [''email'', ''order_value'']"
    by code_simp
  have m: "''name'' \<notin> set [''email'', ''order_value''] \<or> ''phone'' \<notin> set [''email'', ''order_value'']"
    by simp
  have "normalize_frame ex_float_repr ex_email_amount =
     Inl (ValueError (''Missing required columns: '' @
            join '', '' (filter (\<lambda>col. col \<notin> set [''email'', ''order_value'']) [''name'', ''phone'']) @
            ''. Available columns: '' @ join '', '' [''email'', ''order_value'']))"
    by (rule missing_required_columns [OF c [symmetric] m])
  then show ?thesis using c by simp
qed

lemma normalize_frame_Inr:
  assumes "normalize_frame frepr df0 = Inr df'"
  obtains i0 where
    "''name'' \<in> set (columns (standardize_columns df0))"
    "''phone'' \<in> set (columns (standardize_columns df0))"
    "column_index (standardize_columns df0) ''phone'' = [i0]"
    "df' = fill_missing (fill_missing (fill_missing (fill_missing
             (set_column (standardize_columns df0) ''phone''
                (map (\<lambda>r. StrV (clean_phone (py_str frepr (r ! i0)))) (rows df0)))
             ''email'' (StrV '''')) ''total_quantity'' (IntV 0)) ''purchase_count'' (IntV 1))
             ''order_value'' (IntV 0)"
proof -
  let ?df = "standardize_columns df0"
  from assms have req: "''name'' \<in> set (columns ?df)" "''phone'' \<in> set (columns ?df)"
    by (auto simp: normalize_frame_def Let_def required_cols_def split: if_splits)
  with assms obtain df1 where d1: "clean_phone_column frepr ?df = Inr df1"
    and d': "df' = fill_missing (fill_missing (fill_missing (fill_missing df1
             ''email'' (StrV '''')) ''total_quantity'' (IntV 0)) ''purchase_count'' (IntV 1))
             ''order_value'' (IntV 0)"
    by (auto simp: normalize_frame_def Let_def required_cols_def ebind_Inr split: if_splits)
  from d1 req obtain i0 where "column_index ?df ''phone'' = [i0]"
    and "df1 = set_column ?df ''phone''
           (map (\<lambda>r. StrV (clean_phone (py_str frepr (r ! i0)))) (rows ?df))"
    by (auto simp: clean_phone_column_def split: list.splits)
  with req d' show ?thesis
    by (intro that [of i0]) (simp_all add: rows_standardize_columns)
qed

lemma clean_phone_filter: "clean_phone s = filter (\<lambda>ch. \<not> phone_class ch) s"
  by (induction s) auto

lemma digit_not_phone_class: "ch = CHR ''+'' \<or> is_digit ch \<Longrightarrow> \<not> phone_class ch"
  by (auto simp: phone_class_def is_digit_def py_isspace_def Let_def)

lemma lookup_phone_normalized:
  assumes "wf_frame df" "normalize_frame frepr df = Inr df'" "i < length (rows df)"
  shows "\<exists>c. lookup_all (row_series (standardize_columns df) (rows df ! i)) ''phone'' = [c] \<and>
     lookup_all (row_series df' (rows df' ! i)) ''phone'' = [StrV (clean_phone (py_str frepr c))]"
proof -
  let ?df = "standardize_columns df"
  from assms(2) obtain i0 where ph: "''phone'' \<in> set (columns ?df)"
    and ix: "column_index ?df ''phone'' = [i0]"
    and d': "df' = fill_missing (fill_missing (fill_missing (fill_missing
             (set_column ?df ''phone''
                (map (\<lambda>r. StrV (clean_phone (py_str frepr (r ! i0)))) (rows df)))
             ''email'' (StrV '''')) ''total_quantity'' (IntV 0)) ''purchase_count'' (IntV 1))
             ''order_value'' (IntV 0)"
    by (rule normalize_frame_Inr)
  let ?vs = "map (\<lambda>r. StrV (clean_phone (py_str frepr (r ! i0)))) (rows df)"
  let ?d1 = "set_column ?df ''phone'' ?vs"
  have wf: "wf_frame ?df" using assms(1) by (rule wf_standardize_columns)
  have len: "length (rows df ! i) = length (columns ?df)"
    using assms(1,3) by (simp add: wf_frame_def list_all_length standardize_columns_def)
  have l0: "lookup_all (row_series ?df (rows df ! i)) ''phone'' = [rows df ! i ! i0]"
    using ix by (simp add: row_series_def lookup_zip_nth [OF len] column_index_def)
  have lv: "length ?vs = length (rows ?df)" by (simp add: rows_standardize_columns)
  have i1: "i < length (rows ?df)" using assms(3) by (simp add: rows_standardize_columns)
  have l1: "lookup_all (row_series ?d1 (rows ?d1 ! i)) ''phone'' =
      [StrV (clean_phone (py_str frepr (rows df ! i ! i0)))]"
    using lookup_row_set_column [OF wf lv i1, of "''phone''" "''phone''"] ph l0 assms(3)
    by (simp add: rows_standardize_columns)
  have w1: "wf_frame ?d1" using wf by (rule wf_set_column)
  have n1: "length (rows ?d1) = length (rows df)"
    using lv by (simp add: length_rows_set_column rows_standardize_columns)
  have "lookup_all (row_series df' (rows df' ! i)) ''phone'' =
      [StrV (clean_phone (py_str frepr (rows df ! i ! i0)))]"
    unfolding d' using w1 n1 assms(3) l1
    by (simp add: lookup_row_fill_missing wf_fill_missing length_rows_fill_missing)
  with l0 show ?thesis by blast
qed

text \<open>
  C5. In every row of a normalised frame the phone cell is the string of the input phone
  cell from which every whitespace character, hyphen and parenthesis has been removed and
  in which every other character is kept in its place; plus signs and digits are among the
  characters that are kept. The string \<^verbatim>\<open>(555) 123-4567\<close> becomes \<^verbatim>\<open>5551234567\<close>.
\<close>

theorem phone_values_sanitized:
  assumes "wf_frame df" and "normalize_frame frepr df = Inr df'" and "i < length (rows df)"
  shows "(\<exists>c. lookup_all (row_series (standardize_columns df) (rows df ! i)) ''phone'' = [c] \<and>
            lookup_all (row_series df' (rows df' ! i)) ''phone'' =
              [StrV (clean_phone (py_str frepr c))]) \<and>
         clean_phone s =
           filter (\<lambda>ch. \<not> (py_isspace ch \<or> ch = CHR ''-'' \<or> ch = CHR ''('' \<or> ch = CHR '')'')) s \<and>
         filter (\<lambda>ch. ch = CHR ''+'' \<or> is_digit ch) (clean_phone s) =
           filter (\<lambda>ch. ch = CHR ''+'' \<or> is_digit ch) s \<and>
         clean_phone ''(555) 123-4567'' = ''5551234567''"
proof -
  have a: "clean_phone s =
      filter (\<lambda>ch. \<not> (py_isspace ch \<or> ch = CHR ''-'' \<or> ch = CHR ''('' \<or> ch = CHR '')'')) s"
    by (simp add: clean_phone_filter phone_class_def)
  have b: "filter (\<lambda>ch. ch = CHR ''+'' \<or> is_digit ch) (clean_phone s) =
      filter (\<lambda>ch. ch = CHR ''+'' \<or> is_digit ch) s"
    unfolding clean_phone_filter filter_filter
    by (rule filter_cong) (use digit_not_phone_class in auto)
  have c: "clean_phone ''(555) 123-4567'' = ''5551234567''"
    by code_simp
  from lookup_phone_normalized [OF assms] a b c show ?thesis by blast
qed

lemma wf_ex_phone_frame: "wf_frame ex_phone_frame"
  by code_simp

lemma normalize_ex_phone_frame:
  "normalize_frame ex_float_repr ex_phone_frame = Inr ex_phone_normalized"
  by code_simp

text \<open>A frame with the headers Name and Phone Number and the phone (555) 123-4567.\<close>

theorem phone_values_sanitized_witness:
  "wf_frame ex_phone_frame \<and>
   normalize_frame ex_float_repr ex_phone_frame = Inr ex_phone_normalized \<and>
   0 < length (rows ex_phone_frame) \<and>
   lookup_all (row_series ex_phone_normalized (rows ex_phone_normalized ! 0)) ''phone'' =
     [StrV ''5551234567'']"
proof -
  have n: "0 < length (rows ex_phone_frame)" by code_simp
  have l: "lookup_all (row_series (standardize_columns ex_phone_frame) (rows ex_phone_frame ! 0))
      ''phone'' = [StrV ''(555) 123-4567'']"
    by code_simp
  from phone_values_sanitized [OF wf_ex_phone_frame normalize_ex_phone_frame n, of "[]"]
  obtain c where
    "lookup_all (row_series (standardize_columns ex_phone_frame) (rows ex_phone_frame ! 0))
      ''phone'' = [c]"
    "lookup_all (row_series ex_phone_normalized (rows ex_phone_normalized ! 0)) ''phone'' =
      [StrV (clean_phone (py_str ex_float_repr c))]"
    "clean_phone ''(555) 123-4567'' = ''5551234567''"
    by blast
  with l have "lookup_all (row_series ex_phone_normalized (rows ex_phone_normalized ! 0))
      ''phone'' = [StrV ''5551234567'']"
    by simp
  with wf_ex_phone_frame normalize_ex_phone_frame n show ?thesis by blast
qed
section \<open>PDF extraction\<close>

lemma parse_text_Inr:
  assumes "parse_text text = Inr df"
  shows "\<exists>first rest. text_lines text = first # rest \<and> columns df = tokenize first \<and>
     rows df = map (map StrV)
       (filter (\<lambda>row. length row = length (tokenize first)) (map tokenize rest))"
  using assms
  by (auto simp: parse_text_def Let_def split: list.splits if_splits)

lemma parse_ex_page_text: "parse_text (ex_page_text @ [newline]) = Inr ex_text_frame"
  by code_simp

text \<open>
  C6. When the text heuristic returns a frame, its header is the tokens of the first
  non-empty trimmed line and its data rows are the tokenisations of exactly those later lines
  that have as many tokens as the header, in their order. A header line of three tokens
  followed by a line of three tokens and a line of two tokens yields exactly one data row.
\<close>

theorem text_rows_match_header:
  assumes "parse_text text = Inr df"
  shows "(\<exists>first rest. text_lines text = first # rest \<and> columns df = tokenize first \<and>
            rows df = map (map StrV)
              (filter (\<lambda>row. length row = length (tokenize first)) (map tokenize rest))) \<and>
         map (length \<circ> tokenize) (text_lines (ex_page_text @ [newline])) = [3, 3, 2] \<and>
         parse_text (ex_page_text @ [newline]) = Inr ex_text_frame \<and>
         length (rows ex_text_frame) = 1"
proof -
  have "map (length \<circ> tokenize) (text_lines (ex_page_text @ [newline])) = [3, 3, 2]"
    by code_simp
  moreover have "length (rows ex_text_frame) = 1"
    by code_simp
  ultimately show ?thesis
    using parse_text_Inr [OF assms] parse_ex_page_text by blast
qed

text \<open>The theorem at the example text.\<close>

theorem text_rows_match_header_witness:
  "parse_text (ex_page_text @ [newline]) = Inr ex_text_frame \<and>
   columns ex_text_frame = tokenize ''name  phone  email'' \<and>
   rows ex_text_frame = [map StrV (tokenize ''Al  5551234567  al@example.com'')]"
proof -
  have l: "text_lines (ex_page_text @ [newline]) =
      [''name  phone  email'', ''Al  5551234567  al@example.com'', ''Bo  5557654321'']"
    by code_simp
  from text_rows_match_header [OF parse_ex_page_text]
  obtain first rest where "text_lines (ex_page_text @ [newline]) = first # rest"
    and c: "columns ex_text_frame = tokenize first"
    and r: "rows ex_text_frame = map (map StrV)
              (filter (\<lambda>row. length row = length (tokenize first)) (map tokenize rest))"
    by blast
  with l have f: "first = ''name  phone  email''"
    and "rest = [''Al  5551234567  al@example.com'', ''Bo  5557654321'']"
    by simp_all
  moreover have "rows ex_text_frame = [map StrV (tokenize ''Al  5551234567  al@example.com'')]"
    by code_simp
  ultimately show ?thesis using parse_ex_page_text c by simp
qed

text \<open>
  C7, in the form that holds of the code. The text heuristic is entered whenever the primary pass raises an exception:
  when it detects no table, and equally when the table extraction fails for any other reason.
  It is not entered only when the primary pass returns a frame.
\<close>

theorem fallback_on_every_exception:
  assumes "pdfplumber lib"
  shows "(pdf_primary lib content = Inr df \<longrightarrow> parse_pdf_file lib content = Inr df) \<and>
         (pdf_primary lib content = Inl e \<longrightarrow>
            parse_pdf_file lib content =
              (case pdf_fallback lib content of
                 Inr df' \<Rightarrow> Inr df'
               | Inl parse_error \<Rightarrow> Inl (extraction_failed parse_error))) \<and>
         (pdf_open lib content = Inr pages \<and> collect_tables (table_frame lib) pages = Inr []
            \<longrightarrow> pdf_primary lib content = Inl (ValueError ''No tables found in PDF'')) \<and>
         (pdf_open lib content = Inr pages \<and> collect_tables (table_frame lib) pages = Inl e
            \<longrightarrow> pdf_primary lib content = Inl e)"
  using assms by (simp add: parse_pdf_file_def pdf_primary_def ebind_def)

text \<open>A PDF file without tables: the primary pass raises, and the text is parsed.\<close>

theorem fallback_on_every_exception_witness:
  "pdfplumber (ex_lib ex_tableless_page) \<and>
   pdf_primary (ex_lib ex_tableless_page) ex_content = Inl (ValueError ''No tables found in PDF'') \<and>
   pdf_fallback (ex_lib ex_tableless_page) ex_content = Inr ex_text_frame \<and>
   parse_pdf_file (ex_lib ex_tableless_page) ex_content = Inr ex_text_frame"
proof -
  have p: "pdfplumber (ex_lib ex_tableless_page)" by (simp add: ex_lib_def)
  have o: "pdf_open (ex_lib ex_tableless_page) ex_content = Inr [ex_tableless_page]"
    by (simp add: ex_lib_def)
  have t: "collect_tables (table_frame (ex_lib ex_tableless_page)) [ex_tableless_page] = Inr []"
    by (simp add: ex_tableless_page_def ebind_def)
  have x: "collect_text [ex_tableless_page] = Inr (ex_page_text @ [newline])"
    by (simp add: ex_tableless_page_def ebind_def)
  have f: "pdf_fallback (ex_lib ex_tableless_page) ex_content = Inr ex_text_frame"
    unfolding pdf_fallback_def o by (simp only: ebind_def sum.case x parse_ex_page_text)
  from fallback_on_every_exception [OF p, of ex_content _ "ValueError ''No tables found in PDF''" "[ex_tableless_page]"] o t
  have "pdf_primary (ex_lib ex_tableless_page) ex_content = Inl (ValueError ''No tables found in PDF'')"
    and "pdf_primary (ex_lib ex_tableless_page) ex_content = Inl (ValueError ''No tables found in PDF'') \<longrightarrow>
      parse_pdf_file (ex_lib ex_tableless_page) ex_content =
        (case pdf_fallback (ex_lib ex_tableless_page) ex_content of
           Inr df' \<Rightarrow> Inr df'
         | Inl parse_error \<Rightarrow> Inl (extraction_failed parse_error))"
    by blast+
  with p f show ?thesis by simp
qed

text \<open>
  A PDF file whose table detection raises an error that is not the absence of tables: the
  parser still falls back to the text heuristic and returns its frame.
\<close>

theorem no_fallback_on_extraction_error_counterexample:
  "pdf_primary (ex_lib ex_failing_page) ex_content = Inl (OtherError ''table detection failed'') \<and>
   pdf_fallback (ex_lib ex_failing_page) ex_content = Inr ex_text_frame \<and>
   parse_pdf_file (ex_lib ex_failing_page) ex_content = Inr ex_text_frame"
proof -
  have o: "pdf_open (ex_lib ex_failing_page) ex_content = Inr [ex_failing_page]"
    by (simp add: ex_lib_def)
  have t: "collect_tables (table_frame (ex_lib ex_failing_page)) [ex_failing_page] =
      Inl (OtherError ''table detection failed'')"
    by (simp add: ex_failing_page_def ebind_def)
  have x: "collect_text [ex_failing_page] = Inr (ex_page_text @ [newline])"
    by (simp add: ex_failing_page_def ebind_def)
  have a: "pdf_primary (ex_lib ex_failing_page) ex_content = Inl (OtherError ''table detection failed'')"
    unfolding pdf_primary_def o by (simp only: ebind_def sum.case t)
  have f: "pdf_fallback (ex_lib ex_failing_page) ex_content = Inr ex_text_frame"
    unfolding pdf_fallback_def o by (simp only: ebind_def sum.case x parse_ex_page_text)
  have "pdfplumber (ex_lib ex_failing_page)" by (simp add: ex_lib_def)
  then show ?thesis using a f by (simp add: parse_pdf_file_def)
qed

section \<open>The upload route and the collection\<close>

text \<open>
  For a file name with a supported extension and an empty content, the body of the route
  raises the HTTP exception \<^verbatim>\<open>File is empty\<close> without calling the file service or the
  customer service, whatever these are, and leaves the state unchanged; no parser runs. The
  handler \<^verbatim>\<open>except Exception\<close> of the route then reports this exception with status 500.
\<close>

lemma empty_upload_rejected:
  assumes "file_ext filename \<in> set allowed_extensions"
  shows "upload_body upload_file process filename [] w =
           (Inl (HTTPException 400 ''File is empty''), w) \<and>
         upload_route upload_file process filename [] w =
           (Inl (HTTPException 500 ''Failed to process file: 400: File is empty''), w)"
proof -
  have "nat_digits 400 = ''400''" by code_simp
  then show ?thesis using assms by (simp add: upload_body_def upload_route_def)
qed

text \<open>
  C8. The upload of an empty file named x.csv. The body of the route raises the HTTP
  exception 400 \<^verbatim>\<open>File is empty\<close> before the file service and the customer service are
  called, so no parser runs and the collection is unchanged. The route has no handler that
  lets an HTTPException pass, as the other routes have, so its handler
  \<^verbatim>\<open>except Exception\<close> answers with status 500 and the detail
  \<^verbatim>\<open>Failed to process file: 400: File is empty\<close> instead of the empty-file error.
\<close>

theorem empty_upload_answered_500:
  "file_ext ''x.csv'' \<in> set allowed_extensions \<and>
   upload_body ex_upload_file ex_process ''x.csv'' [] [ex_doc] =
     (Inl (HTTPException 400 ''File is empty''), [ex_doc]) \<and>
   upload_route ex_upload_file ex_process ''x.csv'' [] [ex_doc] =
     (Inl (HTTPException 500 ''Failed to process file: 400: File is empty''), [ex_doc])"
proof -
  have e: "file_ext ''x.csv'' \<in> set allowed_extensions" by code_simp
  from empty_upload_rejected [OF e, of ex_upload_file ex_process "[ex_doc]"] e
  show ?thesis by simp
qed

lemma length_list_customers:
  "length (fst (list_customers db uid)) = min 1000 (length (filter (\<lambda>d. user_id d = uid) db))"
  "snd (list_customers db uid) = min 1000 (length (filter (\<lambda>d. user_id d = uid) db))"
  by (simp_all add: list_customers_def Let_def min_def)

lemma list_customers_owned_sorted:
  "set (fst (list_customers db uid)) \<subseteq> {d \<in> set db. user_id d = uid}"
  "sorted (rev (map uploaded_at (fst (list_customers db uid))))"
proof -
  let ?s = "sort_key uploaded_at (filter (\<lambda>d. user_id d = uid) db)"
  show "set (fst (list_customers db uid)) \<subseteq> {d \<in> set db. user_id d = uid}"
    by (auto simp: list_customers_def Let_def dest!: in_set_takeD)
  have "sorted (map uploaded_at ?s)" by simp
  then have "sorted (drop (length ?s - 1000) (map uploaded_at ?s))"
    by (rule sorted_wrt_drop)
  then show "sorted (rev (map uploaded_at (fst (list_customers db uid))))"
    by (simp add: list_customers_def Let_def rev_map [symmetric] take_rev drop_map)
qed

lemma clear_customers_all:
  "fst (clear_customers db uid) = length (filter (\<lambda>d. user_id d = uid) db)"
  "set (snd (clear_customers db uid)) = {d \<in> set db. user_id d \<noteq> uid}"
  by (auto simp: clear_customers_def)

text \<open>
  C9. A collection with 1001 documents of one user: the listing returns 1000 of them and
  reports the total 1000, so it does not return all documents of the user.
\<close>

theorem list_customers_capped:
  "length (filter (\<lambda>d. user_id d = ''user-1'') (replicate 1001 ex_doc)) = 1001 \<and>
   length (fst (list_customers (replicate 1001 ex_doc) ''user-1'')) = 1000 \<and>
   snd (list_customers (replicate 1001 ex_doc) ''user-1'') = 1000"
proof -
  have "user_id ex_doc = ''user-1''" by (simp add: ex_doc_def)
  then have "length (filter (\<lambda>d. user_id d = ''user-1'') (replicate 1001 ex_doc)) = 1001"
    by simp
  then show ?thesis by (simp add: length_list_customers)
qed
section \<open>Defaults, conversions and duplicate columns\<close>

lemma columns_normalized:
  assumes "normalize_frame frepr df = Inr df'"
  shows "columns df' = columns (standardize_columns df) @
           filter (\<lambda>l. l \<notin> set (columns (standardize_columns df)))
             [''email'', ''total_quantity'', ''purchase_count'', ''order_value'']"
proof -
  from assms obtain i0 where ph: "''phone'' \<in> set (columns (standardize_columns df))"
    and d': "df' = fill_missing (fill_missing (fill_missing (fill_missing
             (set_column (standardize_columns df) ''phone''
                (map (\<lambda>r. StrV (clean_phone (py_str frepr (r ! i0)))) (rows df)))
             ''email'' (StrV '''')) ''total_quantity'' (IntV 0)) ''purchase_count'' (IntV 1))
             ''order_value'' (IntV 0)"
    by (rule normalize_frame_Inr)
  show ?thesis
    unfolding d' using ph by (simp add: columns_fill_missing columns_set_column)
qed



lemma lookup_normalized:
  assumes "wf_frame df" "normalize_frame frepr df = Inr df'" "i < length (rows df)"
    and "l \<noteq> ''phone''"
  shows "lookup_all (row_series df' (rows df' ! i)) l =
     (if l \<in> set (columns (standardize_columns df))
      then lookup_all (row_series (standardize_columns df) (rows df ! i)) l
      else default_of l)"
proof -
  let ?df = "standardize_columns df"
  from assms(2) obtain i0 where ph: "''phone'' \<in> set (columns ?df)"
    and d': "df' = fill_missing (fill_missing (fill_missing (fill_missing
             (set_column ?df ''phone''
                (map (\<lambda>r. StrV (clean_phone (py_str frepr (r ! i0)))) (rows df)))
             ''email'' (StrV '''')) ''total_quantity'' (IntV 0)) ''purchase_count'' (IntV 1))
             ''order_value'' (IntV 0)"
    by (rule normalize_frame_Inr)
  let ?vs = "map (\<lambda>r. StrV (clean_phone (py_str frepr (r ! i0)))) (rows df)"
  let ?d1 = "set_column ?df ''phone'' ?vs"
  have wf: "wf_frame ?df" using assms(1) by (rule wf_standardize_columns)
  have lv: "length ?vs = length (rows ?df)" by (simp add: rows_standardize_columns)
  have i1: "i < length (rows ?df)" using assms(3) by (simp add: rows_standardize_columns)
  have l1: "lookup_all (row_series ?d1 (rows ?d1 ! i)) l =
      lookup_all (row_series ?df (rows df ! i)) l"
    using lookup_row_set_column [OF wf lv i1, of "''phone''" l] assms(4)
    by (simp add: rows_standardize_columns)
  have c1: "columns ?d1 = columns ?df" using ph by (simp add: columns_set_column)
  have w1: "wf_frame ?d1" using wf by (rule wf_set_column)
  have n1: "length (rows ?d1) = length (rows df)"
    using lv by (simp add: length_rows_set_column rows_standardize_columns)
  have ab: "lookup_all (row_series ?df (rows df ! i)) l = []" if "l \<notin> set (columns ?df)"
    using that by (simp add: row_series_def lookup_absent)
  show ?thesis
    unfolding d' using w1 n1 assms(3) l1 c1 ab
    by (auto simp: lookup_row_fill_missing wf_fill_missing length_rows_fill_missing
        columns_fill_missing default_of_def)
qed














lemma emap_numeric:
  "list_all is_numeric cs \<Longrightarrow> \<exists>bs. emap (\<lambda>c. cell_ge c n) cs = Inr bs"
  by (induction cs) (auto simp: cell_ge_numeric)

lemma classify_row_duplicate_quantity:
  assumes "2 \<le> length (lookup_all row ''total_quantity'')"
    and "list_all is_numeric (lookup_all row ''total_quantity'')"
  shows "classify_row row = Inl (ValueError ambiguous_msg)"
proof -
  from assms(1) obtain v w vs where vs: "lookup_all row ''total_quantity'' = v # w # vs"
    by (cases "lookup_all row ''total_quantity''" rule: remdups_adj.cases) auto
  then have g: "series_get row ''total_quantity'' (IntV 0) = Series (v # w # vs)"
    by (simp add: series_get_def)
  from emap_numeric [OF assms(2), of 50] vs obtain bs where
    "emap (\<lambda>c. cell_ge c 50) (v # w # vs) = Inr bs"
    by auto
  then have "py_ge (series_get row ''total_quantity'' (IntV 0)) 50 = Inr (BSeries bs)"
    unfolding g by (simp add: ebind_def)
  then show ?thesis
    unfolding classify_row_def by (simp add: ebind_def)
qed

lemma normalize_duplicate_phone:
  assumes "''name'' \<in> set (columns (standardize_columns df))"
    and "2 \<le> length (column_index (standardize_columns df) ''phone'')"
  shows "normalize_frame frepr df = Inl (AttributeError no_str_accessor_msg)"
proof -
  let ?df = "standardize_columns df"
  from assms(2) obtain a b cs where ix: "column_index ?df ''phone'' = a # b # cs"
    by (cases "column_index ?df ''phone''" rule: remdups_adj.cases) auto
  then have "a \<in> set (column_index ?df ''phone'')" by simp
  then have ph: "''phone'' \<in> set (columns ?df)"
    by (auto simp: column_index_def dest: nth_mem)
  have "clean_phone_column frepr ?df = Inl (AttributeError no_str_accessor_msg)"
    using ph ix by (simp add: clean_phone_column_def)
  then show ?thesis
    using assms(1) ph by (simp add: normalize_frame_def Let_def required_cols_def ebind_def)
qed

text \<open>
  C10, in the form that holds of the code. The rename is applied to each header on its own, so a file with a canonical
  column name and one of its synonyms yields a normalised frame with two columns of that
  name, each with its own cells: nothing is merged or preferred. Normalisation fails for
  this only when the duplicated name is phone. Per-row processing keeps only the last of the
  duplicate values when it builds the dictionary of a document; but the classification, which
  runs before, raises ValueError on a row with two numeric total_quantity values.
\<close>

theorem duplicate_columns:
  "(wf_frame df \<and> normalize_frame frepr df = Inr df' \<and> i < length (rows df) \<and>
      l \<in> set (columns (standardize_columns df)) \<and> l \<noteq> ''phone'' \<longrightarrow>
        columns df' = map (rename_column \<circ> standardize_column) (columns df) @
          filter (\<lambda>l. l \<notin> set (columns (standardize_columns df)))
            [''email'', ''total_quantity'', ''purchase_count'', ''order_value''] \<and>
        lookup_all (row_series df' (rows df' ! i)) l =
          lookup_all (row_series (standardize_columns df) (rows df ! i)) l) \<and>
   (''name'' \<in> set (columns (standardize_columns df)) \<and>
      2 \<le> length (column_index (standardize_columns df) ''phone'') \<longrightarrow>
        normalize_frame frepr df = Inl (AttributeError no_str_accessor_msg)) \<and>
   (lookup_all row k \<noteq> [] \<longrightarrow> dict_get (to_dict row) k dflt = last (lookup_all row k)) \<and>
   (2 \<le> length (lookup_all row ''total_quantity'') \<and>
      list_all is_numeric (lookup_all row ''total_quantity'') \<longrightarrow>
        classify_row row = Inl (ValueError ambiguous_msg))"
proof -
  have a: "columns df' = map (rename_column \<circ> standardize_column) (columns df) @
          filter (\<lambda>l. l \<notin> set (columns (standardize_columns df)))
            [''email'', ''total_quantity'', ''purchase_count'', ''order_value''] \<and>
        lookup_all (row_series df' (rows df' ! i)) l =
          lookup_all (row_series (standardize_columns df) (rows df ! i)) l"
    if "wf_frame df" "normalize_frame frepr df = Inr df'" "i < length (rows df)"
      "l \<in> set (columns (standardize_columns df))" "l \<noteq> ''phone''"
    using columns_normalized [OF that(2)] lookup_normalized [OF that(1,2,3,5)] that(4)
    by (simp add: standardize_columns_def)
  have b: "dict_get (to_dict row) k dflt = last (lookup_all row k)" if "lookup_all row k \<noteq> []"
    using that by (simp add: dict_get_to_dict)
  from a b normalize_duplicate_phone [of df frepr] classify_row_duplicate_quantity [of row]
  show ?thesis by blast
qed

lemma wf_ex_dup_name: "wf_frame ex_dup_name"
  by code_simp

lemma normalize_ex_dup_name:
  "normalize_frame ex_float_repr ex_dup_name = Inr ex_dup_name_normalized"
  by code_simp

text \<open>
  A file with the columns name, customer_name and phone; the row of the file with the columns
  total_quantity and quantity; a file with the columns phone and mobile.
\<close>

theorem duplicate_columns_witness:
  "wf_frame ex_dup_name \<and>
   normalize_frame ex_float_repr ex_dup_name = Inr ex_dup_name_normalized \<and>
   0 < length (rows ex_dup_name) \<and>
   ''name'' \<in> set (columns (standardize_columns ex_dup_name)) \<and>
   columns ex_dup_name_normalized =
     [''name'', ''name'', ''phone'', ''email'', ''total_quantity'', ''purchase_count'',
      ''order_value''] \<and>
   lookup_all (row_series ex_dup_name_normalized (rows ex_dup_name_normalized ! 0)) ''name'' =
     [StrV ''Al'', StrV ''Alice''] \<and>
   dict_get (to_dict (row_series ex_dup_name_normalized (rows ex_dup_name_normalized ! 0)))
     ''name'' (StrV '''') = StrV ''Alice'' \<and>
   lookup_all (row_series ex_dup_quantity_normalized (rows ex_dup_quantity_normalized ! 0))
     ''total_quantity'' = [IntV 5, IntV 60] \<and>
   classify_row (row_series ex_dup_quantity_normalized (rows ex_dup_quantity_normalized ! 0)) =
     Inl (ValueError ambiguous_msg) \<and>
   column_index (standardize_columns ex_dup_phone) ''phone'' = [1, 2] \<and>
   normalize_frame ex_float_repr ex_dup_phone = Inl (AttributeError no_str_accessor_msg)"
proof -
  let ?row = "row_series ex_dup_name_normalized (rows ex_dup_name_normalized ! 0)"
  let ?qrow = "row_series ex_dup_quantity_normalized (rows ex_dup_quantity_normalized ! 0)"
  have n: "0 < length (rows ex_dup_name)" by code_simp
  have m: "''name'' \<in> set (columns (standardize_columns ex_dup_name))" by code_simp
  have p: "''name'' \<noteq> ''phone''" by simp
  have s: "lookup_all (row_series (standardize_columns ex_dup_name) (rows ex_dup_name ! 0))
      ''name'' = [StrV ''Al'', StrV ''Alice'']"
    by code_simp
  have r: "map (rename_column \<circ> standardize_column) (columns ex_dup_name) @
          filter (\<lambda>l. l \<notin> set (columns (standardize_columns ex_dup_name)))
            [''email'', ''total_quantity'', ''purchase_count'', ''order_value''] =
     [''name'', ''name'', ''phone'', ''email'', ''total_quantity'', ''purchase_count'',
      ''order_value'']"
    by code_simp
  note t = duplicate_columns [of ex_dup_name ex_float_repr ex_dup_name_normalized 0 "''name''"
      ?row "''name''" "StrV ''''"]
  from t wf_ex_dup_name normalize_ex_dup_name n m p
  have c: "columns ex_dup_name_normalized =
      map (rename_column \<circ> standardize_column) (columns ex_dup_name) @
          filter (\<lambda>l. l \<notin> set (columns (standardize_columns ex_dup_name)))
            [''email'', ''total_quantity'', ''purchase_count'', ''order_value'']"
    and l: "lookup_all ?row ''name'' =
      lookup_all (row_series (standardize_columns ex_dup_name) (rows ex_dup_name ! 0)) ''name''"
    by blast+
  from l s have l': "lookup_all ?row ''name'' = [StrV ''Al'', StrV ''Alice'']" by simp
  with t have g: "dict_get (to_dict ?row) ''name'' (StrV '''') = StrV ''Alice''" by simp
  have q: "lookup_all ?qrow ''total_quantity'' = [IntV 5, IntV 60]" by code_simp
  from c r have c': "columns ex_dup_name_normalized =
      [''name'', ''name'', ''phone'', ''email'', ''total_quantity'', ''purchase_count'',
       ''order_value'']"
    by (rule trans)
  have u4: "2 \<le> length (lookup_all ?qrow ''total_quantity'') \<and>
        list_all is_numeric (lookup_all ?qrow ''total_quantity'') \<longrightarrow>
      classify_row ?qrow = Inl (ValueError ambiguous_msg)"
    and u2: "''name'' \<in> set (columns (standardize_columns ex_dup_phone)) \<and>
        2 \<le> length (column_index (standardize_columns ex_dup_phone) ''phone'') \<longrightarrow>
      normalize_frame ex_float_repr ex_dup_phone = Inl (AttributeError no_str_accessor_msg)"
    using duplicate_columns [of ex_dup_phone ex_float_repr ex_dup_name_normalized 0 "''name''"
        ?qrow "''name''" "StrV ''''"]
    by (rule conjunct2 [THEN conjunct2, THEN conjunct2], rule conjunct2 [THEN conjunct1])
  have "2 \<le> length (lookup_all ?qrow ''total_quantity'') \<and>
      list_all is_numeric (lookup_all ?qrow ''total_quantity'')"
    unfolding q by simp
  with u4 have e: "classify_row ?qrow = Inl (ValueError ambiguous_msg)" by (rule mp)
  have x: "column_index (standardize_columns ex_dup_phone) ''phone'' = [1, 2]" by code_simp
  have y: "''name'' \<in> set (columns (standardize_columns ex_dup_phone))" by code_simp
  have "''name'' \<in> set (columns (standardize_columns ex_dup_phone)) \<and>
      2 \<le> length (column_index (standardize_columns ex_dup_phone) ''phone'')"
    unfolding x using y by simp
  with u2 have f: "normalize_frame ex_float_repr ex_dup_phone =
      Inl (AttributeError no_str_accessor_msg)"
    by (rule mp)
  from wf_ex_dup_name normalize_ex_dup_name n m c' l' g q e x f show ?thesis
    by (intro conjI)
qed

text \<open>
  A file with both total_quantity and quantity: the normalised frame has two columns named
  total_quantity, and the classification raises ValueError instead of keeping one value.
\<close>

theorem duplicate_quantity_counterexample:
  "normalize_frame ex_float_repr ex_dup_quantity = Inr ex_dup_quantity_normalized \<and>
   lookup_all
     (row_series ex_dup_quantity_normalized (rows ex_dup_quantity_normalized ! 0))
     ''total_quantity'' = [IntV 5, IntV 60] \<and>
   classify_customers ex_dup_quantity_normalized = Inl (ValueError ambiguous_msg)"
proof -
  have "normalize_frame ex_float_repr ex_dup_quantity = Inr ex_dup_quantity_normalized"
    by code_simp
  moreover have "lookup_all
     (row_series ex_dup_quantity_normalized (rows ex_dup_quantity_normalized ! 0))
     ''total_quantity'' = [IntV 5, IntV 60]"
    by code_simp
  moreover have "classify_customers ex_dup_quantity_normalized = Inl (ValueError ambiguous_msg)"
    by (simp add: classify_customers_def ensure_metric_def ex_dup_quantity_normalized_def
      ebind_def row_series_def classify_row_def series_get_def lookup_all_def)
  ultimately show ?thesis by blast
qed
end
